theory Spec2Isabelle
  imports Main "HOL-Library.Word" "HOL-Library.Signed_Division" "HOL-Library.Multiset"
begin

section \<open>Adreno idler: the data of \<^verbatim>\<open>drivers/devfreq/adreno_idler.c\<close>\<close>

text \<open>
  The C integer types of the file on a 64-bit kernel: \<^verbatim>\<open>unsigned long\<close>, \<^verbatim>\<open>long\<close> and
  \<^verbatim>\<open>int64_t\<close> are 64-bit words, \<^verbatim>\<open>int\<close> and \<^verbatim>\<open>unsigned int\<close> are 32-bit words. A word
  carries no sign: the signed reading is taken where the C operation is signed
  (\<open>scast\<close> for the conversion of an \<^verbatim>\<open>int\<close> to a wider type, \<open>word_sle\<close> for the comparison
  of two \<^verbatim>\<open>int64_t\<close>, \<open>sint\<close> under the signed division). Arithmetic wraps around, which is
  what C defines for the unsigned operations and what the kernel's build options give
  for the signed ones.
\<close>

type_synonym ulong = "64 word"
type_synonym s64 = "64 word"
type_synonym c_int = "32 word"
type_synonym c_uint = "32 word"

text \<open>\<^verbatim>\<open>struct timespec\<close>, as \<^verbatim>\<open>current_kernel_time()\<close> returns it.\<close>

record timespec =
  tv_sec :: s64
  tv_nsec :: s64

text \<open>The numeric fields of \<^verbatim>\<open>struct devfreq_dev_status\<close> (\<^verbatim>\<open>linux/devfreq.h\<close>).\<close>

record devfreq_dev_status =
  total_time :: ulong
  busy_time :: ulong
  current_frequency :: ulong

text \<open>
  The two fields of \<^verbatim>\<open>devfreq->profile\<close> that the function reads. \<open>freq_table\<close> is the
  array the pointer refers to, with its entries as they are once converted to
  \<^verbatim>\<open>unsigned long\<close> for the comparison and the store; \<open>max_state\<close> is the
  \<^verbatim>\<open>unsigned int\<close> count kept beside it.
\<close>

record devfreq_dev_profile =
  freq_table :: "ulong list"
  max_state :: c_uint

text \<open>
  The module parameters. The file declares several of them more than once; the
  declaration taken here is the first one of each name, which is also the one whose
  spelling the function uses (\<^verbatim>\<open>static int idleworkload\<close>, \<^verbatim>\<open>static int idlewaitms\<close>,
  \<^verbatim>\<open>static unsigned int idlewait\<close>, \<^verbatim>\<open>static int downdifferenctial\<close>,
  \<^verbatim>\<open>static int adreno_idler_active\<close>).
\<close>

record idler_params =
  idleworkload :: c_int
  idlewaitms :: c_int
  idlewait :: c_uint
  downdifferenctial :: c_int
  adreno_idler_active :: c_int

text \<open>
  The variables the function assigns. \<^verbatim>\<open>idle_lasttime\<close> is the file's
  \<^verbatim>\<open>static int64_t\<close>, where 0 stands for "no idle period has begun". \<^verbatim>\<open>idlecount\<close> is
  compared with \<^verbatim>\<open>idlewait\<close> and set to 0 by the function, but the file holds no
  declaration of it: it is taken as an \<^verbatim>\<open>unsigned int\<close>, the type of \<^verbatim>\<open>idlewait\<close>.
  Both are file-level variables: there is one copy, whatever \<^verbatim>\<open>devfreq\<close> a call is for.
\<close>

record idler_state =
  idle_lasttime :: s64
  idlecount :: c_uint

text \<open>The default values the first declarations give, and the state at module load.\<close>

definition default_params :: idler_params where
  "default_params =
     \<lparr>idleworkload = 5000, idlewaitms = 500, idlewait = 25,
      downdifferenctial = 20, adreno_idler_active = 1\<rparr>"

definition initial_state :: idler_state where
  "initial_state = \<lparr>idle_lasttime = 0, idlecount = 0\<rparr>"

datatype fault = OutOfBounds

section \<open>The functions\<close>

text \<open>\<^verbatim>\<open>MSEC_PER_SEC\<close> and \<^verbatim>\<open>NSEC_PER_MSEC\<close> of \<^verbatim>\<open>linux/time.h\<close>, both \<^verbatim>\<open>long\<close>.\<close>

definition MSEC_PER_SEC :: s64 where
  "MSEC_PER_SEC = 1000"

definition NSEC_PER_MSEC :: s64 where
  "NSEC_PER_MSEC = 1000000"

text \<open>
  \<^verbatim>\<open>get_time_inms\<close>: the argument is the value \<^verbatim>\<open>current_kernel_time()\<close> returns. The
  division of two \<^verbatim>\<open>long\<close> truncates towards zero.
\<close>

definition get_time_inms :: "timespec \<Rightarrow> s64" where
  "get_time_inms cur_time =
     (let tinms = tv_sec cur_time * MSEC_PER_SEC
      in tinms + word_of_int (sint (tv_nsec cur_time) sdiv sint NSEC_PER_MSEC))"

text \<open>
  A read of \<^verbatim>\<open>freq_table[i]\<close> for an \<^verbatim>\<open>unsigned int\<close> index. The C program reads whatever
  lies behind the array when the index is not below its size; the model stops with a
  fault there.
\<close>

definition freq_table_at :: "devfreq_dev_profile \<Rightarrow> c_uint \<Rightarrow> fault + ulong" where
  "freq_table_at profile i =
     (if unat i < length (freq_table profile)
      then Inr (freq_table profile ! unat i)
      else Inl OutOfBounds)"

text \<open>The test both ramp-down conditions share (lines 109 and 116), in \<^verbatim>\<open>unsigned long\<close>.\<close>

definition below_downdifferenctial :: "idler_params \<Rightarrow> devfreq_dev_status \<Rightarrow> bool" where
  "below_downdifferenctial p stats \<longleftrightarrow>
     busy_time stats * 100 < total_time stats * scast (downdifferenctial p)"

text \<open>Lines 101 and 102: the first idle sample of a period records the time.\<close>

definition mark_idle_start :: "timespec \<Rightarrow> idler_state \<Rightarrow> idler_state" where
  "mark_idle_start cur_time g =
     (if idle_lasttime g = 0 then g\<lparr>idle_lasttime := get_time_inms cur_time\<rparr> else g)"

text \<open>
  \<^verbatim>\<open>adreno_idler(stats, devfreq, freq)\<close>. Beside the three C arguments the model takes
  what the function reads from its surroundings: the module parameters \<open>p\<close>, the flag
  \<^verbatim>\<open>state_suspended\<close> of the state notifier, the kernel's current time \<open>cur_time\<close> (the
  function does not change it, so both calls of \<^verbatim>\<open>get_time_inms\<close> in one run see the same
  value) and the file's variables \<open>g\<close>. \<open>freq\<close> is the value of \<^verbatim>\<open>*freq\<close> on entry. The
  result is the returned \<^verbatim>\<open>int\<close>, the value of \<^verbatim>\<open>*freq\<close> on return and the variables on
  return: a run that does not assign \<^verbatim>\<open>*freq\<close> hands the caller's value back.
\<close>

definition adreno_idler ::
  "idler_params \<Rightarrow> bool \<Rightarrow> timespec \<Rightarrow> devfreq_dev_status \<Rightarrow> devfreq_dev_profile \<Rightarrow> ulong \<Rightarrow>
     idler_state \<Rightarrow> fault + (int \<times> ulong \<times> idler_state)" where
  "adreno_idler p state_suspended cur_time stats profile freq g =
     (if adreno_idler_active p = 0 then Inr (0, freq, g)
      else if busy_time stats < scast (idleworkload p) then
        (let g1 = mark_idle_start cur_time g
         in case freq_table_at profile (max_state profile - 1) of
              Inl e \<Rightarrow> Inl e
            | Inr lowest \<Rightarrow>
                if freq = lowest then Inr (1, freq, g1)
                else if idlewait p \<le> idlecount g1 \<and> below_downdifferenctial p stats
                  then Inr (1, freq, g1)
                else if word_sle (idle_lasttime g1 + scast (idlewaitms p)) (get_time_inms cur_time)
                        \<and> below_downdifferenctial p stats
                  then Inr (1, lowest, g1)
                else Inr (0, freq, g1))
      else if state_suspended then
        (case freq_table_at profile (max_state profile - 1) of
           Inl e \<Rightarrow> Inl e
         | Inr lowest \<Rightarrow> Inr (1, lowest, g))
      else
        (let g1 = g\<lparr>idlecount := 0\<rparr>;
             g2 = g1\<lparr>idle_lasttime := 0\<rparr>
         in case freq_table_at profile (max_state profile - 2) of
              Inl e \<Rightarrow> Inl e
            | Inr second \<Rightarrow> Inr (0, second, g2)))"

text \<open>The profile of a registered device: \<open>max_state\<close> is the size of \<open>freq_table\<close>.\<close>

definition wf_profile :: "devfreq_dev_profile \<Rightarrow> bool" where
  "wf_profile profile \<longleftrightarrow> unat (max_state profile) = length (freq_table profile)"

text \<open>
  The two entries the function reads, by their place in the array: the last one, at
  \<open>max_state - 1\<close>, and the one before it, at \<open>max_state - 2\<close>.
\<close>

definition last_entry :: "devfreq_dev_profile \<Rightarrow> ulong" where
  "last_entry profile = freq_table profile ! (length (freq_table profile) - 1)"

definition entry_before_last :: "devfreq_dev_profile \<Rightarrow> ulong" where
  "entry_before_last profile = freq_table profile ! (length (freq_table profile) - 2)"

text \<open>
  The frequency table as the specification has it: the supported frequencies in
  ascending order, where "lowest" is the first element, the least frequency of the
  table, and "second-lowest" is the second element from the bottom. These three
  definitions follow the specification's words, not the source; the theorems compare
  them with what the function reads.
\<close>

definition ascending_table :: "devfreq_dev_profile \<Rightarrow> ulong list" where
  "ascending_table profile = sort (freq_table profile)"

definition lowest_freq :: "devfreq_dev_profile \<Rightarrow> ulong" where
  "lowest_freq profile = ascending_table profile ! 0"

definition second_lowest_freq :: "devfreq_dev_profile \<Rightarrow> ulong" where
  "second_lowest_freq profile = ascending_table profile ! 1"

text \<open>
  The order the function counts on when its comments call the last entry the lowest
  frequency: the array runs from the highest frequency down to the lowest.
\<close>

definition highest_first :: "devfreq_dev_profile \<Rightarrow> bool" where
  "highest_first profile \<longleftrightarrow> sorted (rev (freq_table profile))"

text \<open>
  A run of calls, one after the other, on the file's variables: each call is given as
  \<^verbatim>\<open>state_suspended\<close>, the kernel's time, the sample, the profile of the device the call
  is for and \<^verbatim>\<open>*freq\<close> on entry. The run yields what each call returned and wrote, and
  the variables at the end.
\<close>

type_synonym idler_call = "bool \<times> timespec \<times> devfreq_dev_status \<times> devfreq_dev_profile \<times> ulong"

fun adreno_idler_calls ::
  "idler_params \<Rightarrow> idler_call list \<Rightarrow> idler_state \<Rightarrow> fault + ((int \<times> ulong) list \<times> idler_state)" where
  "adreno_idler_calls p [] g = Inr ([], g)"
| "adreno_idler_calls p ((state_suspended, cur_time, stats, profile, freq) # calls) g =
     (case adreno_idler p state_suspended cur_time stats profile freq g of
        Inl e \<Rightarrow> Inl e
      | Inr (r, freq', g') \<Rightarrow>
          (case adreno_idler_calls p calls g' of
             Inl e \<Rightarrow> Inl e
           | Inr (rs, g'') \<Rightarrow> Inr ((r, freq') # rs, g'')))"

text \<open>
  A governor that samples at a fixed period: \<open>n\<close> calls with the same sample, profile
  and \<^verbatim>\<open>*freq\<close>, the first at \<open>start\<close> and each next one \<open>period_ns\<close> nanoseconds later.
\<close>

definition periodic_calls ::
  "nat \<Rightarrow> timespec \<Rightarrow> s64 \<Rightarrow> bool \<Rightarrow> devfreq_dev_status \<Rightarrow> devfreq_dev_profile \<Rightarrow> ulong \<Rightarrow>
     idler_call list" where
  "periodic_calls n start period_ns state_suspended stats profile freq =
     map (\<lambda>i. (state_suspended, start\<lparr>tv_nsec := tv_nsec start + period_ns * of_nat i\<rparr>,
                stats, profile, freq))
       [0..<n]"

section \<open>Reading the table\<close>

lemma freq_table_at_last:
  assumes "wf_profile profile" and "max_state profile \<noteq> 0"
  shows "freq_table_at profile (max_state profile - 1) = Inr (last_entry profile)"
proof -
  have pos: "0 < unat (max_state profile)"
    using assms(2) by (simp add: unat_gt_0)
  then have "unat (max_state profile - 1) = unat (max_state profile) - 1"
    by (simp add: unat_minus_one assms(2))
  with pos assms(1) show ?thesis
    by (simp add: freq_table_at_def last_entry_def wf_profile_def)
qed

lemma freq_table_at_before_last:
  assumes "wf_profile profile" and "2 \<le> max_state profile"
  shows "freq_table_at profile (max_state profile - 2) = Inr (entry_before_last profile)"
proof -
  have "unat (max_state profile - 2) = unat (max_state profile) - unat (2 :: c_uint)"
    using assms(2) by (rule unat_sub)
  moreover have "2 \<le> unat (max_state profile)"
    using assms(2) by (simp add: word_le_nat_alt)
  ultimately show ?thesis
    using assms(1) by (simp add: freq_table_at_def entry_before_last_def wf_profile_def)
qed

lemma wf_profile_nonempty:
  assumes "wf_profile profile" and "max_state profile \<noteq> 0"
  shows "freq_table profile \<noteq> []"
proof -
  have "0 < unat (max_state profile)"
    using assms(2) by (simp add: unat_gt_0)
  with assms(1) show ?thesis
    by (auto simp: wf_profile_def)
qed

lemma wf_profile_two:
  assumes "wf_profile profile" and "2 \<le> max_state profile"
  shows "2 \<le> length (freq_table profile)"
proof -
  have "2 \<le> unat (max_state profile)"
    using assms(2) by (simp add: word_le_nat_alt)
  with assms(1) show ?thesis
    by (simp add: wf_profile_def)
qed

section \<open>The specification's table and the array\<close>

text \<open>\<open>lowest_freq\<close> is the least entry of the table, whatever the order of the array.\<close>

lemma lowest_freq_least:
  assumes "f \<in> set (freq_table profile)"
  shows "lowest_freq profile \<le> f"
proof -
  from assms have "f \<in> set (sort (freq_table profile))"
    by simp
  then obtain i where i: "i < length (sort (freq_table profile))"
      "sort (freq_table profile) ! i = f"
    unfolding in_set_conv_nth by blast
  have "sorted (sort (freq_table profile))"
    by simp
  then have "sort (freq_table profile) ! 0 \<le> sort (freq_table profile) ! i"
    using i(1) by (intro sorted_nth_mono) simp_all
  with i(2) show ?thesis
    by (simp add: lowest_freq_def ascending_table_def)
qed

lemma lowest_freq_in_table:
  assumes "freq_table profile \<noteq> []"
  shows "lowest_freq profile \<in> set (freq_table profile)"
proof -
  have "0 < length (sort (freq_table profile))"
    using assms by simp
  then have "sort (freq_table profile) ! 0 \<in> set (sort (freq_table profile))"
    by (rule nth_mem)
  then show ?thesis
    by (simp add: lowest_freq_def ascending_table_def)
qed

text \<open>An array that runs from the highest frequency down is the ascending table reversed.\<close>

lemma ascending_table_highest_first:
  assumes "highest_first profile"
  shows "ascending_table profile = rev (freq_table profile)"
  unfolding ascending_table_def
  using assms by (intro properties_for_sort) (simp_all add: highest_first_def)

lemma last_entry_lowest:
  assumes "highest_first profile" and "freq_table profile \<noteq> []"
  shows "last_entry profile = lowest_freq profile"
  using assms(2)
  by (simp add: last_entry_def lowest_freq_def ascending_table_highest_first [OF assms(1)]
      rev_nth)

lemma entry_before_last_second_lowest:
  assumes "highest_first profile" and "2 \<le> length (freq_table profile)"
  shows "entry_before_last profile = second_lowest_freq profile"
proof -
  have "rev (freq_table profile) ! 1
          = freq_table profile ! (length (freq_table profile) - Suc 1)"
    using assms(2) by (intro rev_nth) simp
  then show ?thesis
    by (simp add: entry_before_last_def second_lowest_freq_def
        ascending_table_highest_first [OF assms(1)] numeral_2_eq_2)
qed

text \<open>A table of one entry is in either order, and its entry is the lowest.\<close>

lemma last_entry_single:
  assumes "length (freq_table profile) = 1"
  shows "last_entry profile = lowest_freq profile"
proof -
  from assms obtain x where "freq_table profile = [x]"
    by (cases "freq_table profile") simp_all
  then show ?thesis
    by (simp add: last_entry_def lowest_freq_def ascending_table_def)
qed

section \<open>The comparison with the threshold\<close>

text \<open>
  Line 99 compares in \<^verbatim>\<open>unsigned long\<close>, with \<^verbatim>\<open>idleworkload\<close> converted from \<^verbatim>\<open>int\<close>. For a
  threshold that is not negative this is the comparison of the two numbers.
\<close>

lemma scast_nonneg:
  fixes w :: c_int
  assumes "0 \<le> sint w"
  shows "uint (scast w :: ulong) = sint w"
proof -
  have "sint w < 2 ^ 31"
    using sint_lt [of w] by simp
  also have "\<dots> < (2 ^ 64 :: int)"
    by simp
  finally have lt: "sint w < 2 ^ 64" .
  have "uint (scast w :: ulong) = sint w mod 2 ^ 64"
    by (simp only: scast_eq uint_word_of_int len_bit0 len_num1 One_nat_def)
      simp
  also have "\<dots> = sint w"
    using assms lt by (rule mod_pos_pos_trivial)
  finally show ?thesis .
qed

lemma threshold_reached:
  fixes w :: c_int and b :: ulong
  assumes "0 \<le> sint w" and "sint w \<le> uint b"
  shows "scast w \<le> b"
  using assms(2) by (simp only: word_le_def scast_nonneg [OF assms(1)])

lemma below_threshold:
  fixes w :: c_int and b :: ulong
  assumes "uint b < sint w"
  shows "b < scast w"
proof -
  have "0 \<le> uint b" by simp
  with assms have "0 \<le> sint w" by linarith
  then have "uint (scast w :: ulong) = sint w"
    by (rule scast_nonneg)
  with assms show ?thesis
    by (simp only: word_less_def)
qed

section \<open>Reads outside the table\<close>



section \<open>The two tests of the idle branch\<close>


lemma sint_add_small:
  fixes T k :: s64
  assumes "0 \<le> sint k" and "sint T + sint k < 2 ^ 63"
  shows "sint (T + k) = sint T + sint k"
proof -
  have lo: "- (2 ^ 63) \<le> sint T"
    using sint_ge [of T] by simp
  have "sint (T + k) = signed_take_bit 63 (sint T + sint k)"
    by (simp add: sint_word_ariths)
  also have "\<dots> = sint T + sint k"
    using lo assms by (intro signed_take_bit_int_eq_self) simp_all
  finally show ?thesis .
qed

lemma later_by_600:
  fixes T :: s64
  assumes "sint T + 600 < 2 ^ 63"
  shows "word_sle (T + 500) (T + 600)" and "\<not> word_sle (T + 500) T"
proof -
  have a: "sint (T + 500) = sint T + 500"
    using sint_add_small [of 500 T] assms by simp
  have b: "sint (T + 600) = sint T + 600"
    using sint_add_small [of 600 T] assms by simp
  show "word_sle (T + 500) (T + 600)"
    by (simp add: word_sle_eq a b)
  show "\<not> word_sle (T + 500) T"
    by (simp add: word_sle_eq a)
qed

section \<open>The three branches\<close>

lemma adreno_idler_idle:
  assumes "adreno_idler_active p \<noteq> 0"
    and "busy_time stats < scast (idleworkload p)"
    and "wf_profile profile" and "max_state profile \<noteq> 0"
  shows "adreno_idler p state_suspended cur_time stats profile freq g =
     (if freq = last_entry profile then Inr (1, freq, mark_idle_start cur_time g)
      else if idlewait p \<le> idlecount g \<and> below_downdifferenctial p stats
        then Inr (1, freq, mark_idle_start cur_time g)
      else if word_sle (idle_lasttime (mark_idle_start cur_time g) + scast (idlewaitms p))
                (get_time_inms cur_time) \<and> below_downdifferenctial p stats
        then Inr (1, last_entry profile, mark_idle_start cur_time g)
      else Inr (0, freq, mark_idle_start cur_time g))"
proof -
  have "idlecount (mark_idle_start cur_time g) = idlecount g"
    by (simp add: mark_idle_start_def)
  with assms(1,2) freq_table_at_last [OF assms(3,4)] show ?thesis
    by (simp add: adreno_idler_def Let_def)
qed

lemma adreno_idler_suspended:
  assumes "adreno_idler_active p \<noteq> 0"
    and "scast (idleworkload p) \<le> busy_time stats"
    and "wf_profile profile" and "max_state profile \<noteq> 0"
  shows "adreno_idler p True cur_time stats profile freq g = Inr (1, last_entry profile, g)"
  using assms(1,2) freq_table_at_last [OF assms(3,4)]
  by (simp add: adreno_idler_def not_less [symmetric])

lemma adreno_idler_busy:
  assumes "adreno_idler_active p \<noteq> 0"
    and "scast (idleworkload p) \<le> busy_time stats"
    and "wf_profile profile" and "2 \<le> max_state profile"
  shows "adreno_idler p False cur_time stats profile freq g =
           Inr (0, entry_before_last profile, \<lparr>idle_lasttime = 0, idlecount = 0\<rparr>)"
  using assms(1,2) freq_table_at_before_last [OF assms(3,4)]
  by (simp add: adreno_idler_def Let_def not_less [symmetric])

text \<open>No call raises \<open>idlecount\<close>: it keeps its value or becomes 0.\<close>

lemma adreno_idler_idlecount:
  assumes "adreno_idler p state_suspended cur_time stats profile freq g = Inr (r, freq', g')"
  shows "idlecount g' = idlecount g \<or> idlecount g' = 0"
  using assms
  by (auto simp: adreno_idler_def mark_idle_start_def Let_def split: if_splits sum.splits)

section \<open>The claims\<close>

text \<open>
  In the statements below "active enabled" is \<open>adreno_idler_active p \<noteq> 0\<close>, a decision
  with \<open>final\<close> true or false is the returned 1 or 0, and the suggested frequency is the
  value of \<^verbatim>\<open>*freq\<close> on return: "none" is a return that leaves the caller's value in
  place. The threshold is the number \<open>sint (idleworkload p)\<close> and the busy time the number
  \<open>uint (busy_time stats)\<close>; where a statement instead has the comparison as line 99
  makes it, in \<^verbatim>\<open>unsigned long\<close>, it is written with \<open>scast\<close>. "Lowest" and
  "second-lowest" are \<open>lowest_freq\<close> and \<open>second_lowest_freq\<close>, the first and second
  element of the ascending table; \<open>last_entry\<close> and \<open>entry_before_last\<close> are places in
  the array.
\<close>

subsection \<open>C1\<close>

text \<open>
  C1 (time-based confirmation), as the code has it. With the switch on,
  \<open>idleworkload = 5000\<close>, \<open>idlewaitms = 500\<close>, \<open>downdifferenctial = 20\<close>, a sample with
  \<open>busy_time = 1000\<close> and \<open>total_time = 10000\<close>, \<^verbatim>\<open>*freq\<close> not the lowest frequency of
  the table, \<open>idle_lasttime\<close> unset and \<open>idlecount\<close> below \<open>idlewait\<close>, on an array that
  runs from the highest frequency down to the lowest: a first call at a time \<open>T0\<close>
  returns 0, leaves \<^verbatim>\<open>*freq\<close> alone and sets \<open>idle_lasttime\<close> to \<open>T0\<close>; a second call
  600 ms later, on that state and the same sample, returns 1 with \<^verbatim>\<open>*freq\<close> set to the
  lowest frequency of the table. This needs \<open>T0 \<noteq> 0\<close>, since 0 is how \<open>idle_lasttime\<close>
  says "unset", and \<open>T0 + 600\<close> within the range of \<^verbatim>\<open>int64_t\<close>.
\<close>

theorem time_based_confirmation:
  assumes "adreno_idler_active p \<noteq> 0"
    and "idleworkload p = 5000" and "idlewaitms p = 500" and "downdifferenctial p = 20"
    and "busy_time stats = 1000" and "total_time stats = 10000"
    and "wf_profile profile" and "max_state profile \<noteq> 0"
    and "highest_first profile"
    and "freq \<noteq> lowest_freq profile"
    and "idle_lasttime g = 0" and "idlecount g < idlewait p"
    and "get_time_inms t0 \<noteq> 0" and "sint (get_time_inms t0) + 600 < 2 ^ 63"
    and "get_time_inms t1 = get_time_inms t0 + 600"
  shows "adreno_idler p s0 t0 stats profile freq g
           = Inr (0, freq, g\<lparr>idle_lasttime := get_time_inms t0\<rparr>)
       \<and> adreno_idler p s1 t1 stats profile freq (g\<lparr>idle_lasttime := get_time_inms t0\<rparr>)
           = Inr (1, lowest_freq profile, g\<lparr>idle_lasttime := get_time_inms t0\<rparr>)"
proof -
  let ?T0 = "get_time_inms t0"
  let ?g1 = "g\<lparr>idle_lasttime := ?T0\<rparr>"
  have idle: "busy_time stats < scast (idleworkload p)"
    using assms(2,5) by simp
  have ratio: "below_downdifferenctial p stats"
    using assms(4,5,6) by (simp add: below_downdifferenctial_def)
  have low: "last_entry profile = lowest_freq profile"
    using assms(9) wf_profile_nonempty [OF assms(7,8)] by (rule last_entry_lowest)
  have first_mark: "mark_idle_start t0 g = ?g1"
    using assms(11) by (simp add: mark_idle_start_def)
  have second_mark: "mark_idle_start t1 ?g1 = ?g1"
    using assms(13) by (simp add: mark_idle_start_def)
  have not_yet: "\<not> word_sle (?T0 + 500) ?T0" and waited: "word_sle (?T0 + 500) (?T0 + 600)"
    using later_by_600 [OF assms(14)] by simp_all
  have count: "\<not> idlewait p \<le> idlecount g"
    using assms(12) by simp
  have "adreno_idler p s0 t0 stats profile freq g = Inr (0, freq, ?g1)"
    using assms(3,10) count not_yet
    by (simp add: adreno_idler_idle [OF assms(1) idle assms(7,8)] first_mark low)
  moreover have "adreno_idler p s1 t1 stats profile freq ?g1 = Inr (1, lowest_freq profile, ?g1)"
    using assms(3,10,15) count waited ratio
    by (simp add: adreno_idler_idle [OF assms(1) idle assms(7,8)] second_mark low)
  ultimately show ?thesis by simp
qed

theorem time_based_confirmation_witness:
  "adreno_idler default_params False \<lparr>tv_sec = 1600000000, tv_nsec = 250000000\<rparr>
     \<lparr>total_time = 10000, busy_time = 1000, current_frequency = 647000000\<rparr>
     \<lparr>freq_table = [647000000, 370000000, 160000000], max_state = 3\<rparr> 647000000
     initial_state
   = Inr (0, 647000000, \<lparr>idle_lasttime = 1600000000250, idlecount = 0\<rparr>)
   \<and> adreno_idler default_params False \<lparr>tv_sec = 1600000000, tv_nsec = 850000000\<rparr>
     \<lparr>total_time = 10000, busy_time = 1000, current_frequency = 647000000\<rparr>
     \<lparr>freq_table = [647000000, 370000000, 160000000], max_state = 3\<rparr> 647000000
     \<lparr>idle_lasttime = 1600000000250, idlecount = 0\<rparr>
   = Inr (1, 160000000, \<lparr>idle_lasttime = 1600000000250, idlecount = 0\<rparr>)"
proof -
  let ?t0 = "\<lparr>tv_sec = 1600000000, tv_nsec = 250000000\<rparr>"
  let ?t1 = "\<lparr>tv_sec = 1600000000, tv_nsec = 850000000\<rparr>"
  let ?profile = "\<lparr>freq_table = [647000000, 370000000, 160000000], max_state = 3\<rparr>"
  have T0: "get_time_inms ?t0 = 1600000000250"
    by (simp add: get_time_inms_def MSEC_PER_SEC_def NSEC_PER_MSEC_def signed_divide_int_def)
  have T1: "get_time_inms ?t1 = 1600000000850"
    by (simp add: get_time_inms_def MSEC_PER_SEC_def NSEC_PER_MSEC_def signed_divide_int_def)
  have low: "lowest_freq ?profile = 160000000"
    by (simp add: lowest_freq_def ascending_table_def)
  have "adreno_idler default_params False ?t0
          \<lparr>total_time = 10000, busy_time = 1000, current_frequency = 647000000\<rparr>
          ?profile 647000000 initial_state
        = Inr (0, 647000000, initial_state\<lparr>idle_lasttime := get_time_inms ?t0\<rparr>)
      \<and> adreno_idler default_params False ?t1
          \<lparr>total_time = 10000, busy_time = 1000, current_frequency = 647000000\<rparr>
          ?profile 647000000 (initial_state\<lparr>idle_lasttime := get_time_inms ?t0\<rparr>)
        = Inr (1, lowest_freq ?profile, initial_state\<lparr>idle_lasttime := get_time_inms ?t0\<rparr>)"
    by (rule time_based_confirmation)
      (simp_all add: default_params_def initial_state_def wf_profile_def highest_first_def
        low T0 T1)
  then show ?thesis
    by (simp add: T0 low initial_state_def)
qed

text \<open>
  C1 as the claim states it fails in two ways. When the clock reads 0 at the first
  call, the assignment of line 102 stores 0, which the second call takes for "unset";
  it stores its own time, 600, and with \<open>600 + 500 > 600\<close> it returns 0 and leaves
  \<^verbatim>\<open>*freq\<close> alone instead of returning 1 with the lowest frequency. And on the ascending
  table of the specification, whose lowest frequency is 160000000, the second call sets
  \<^verbatim>\<open>*freq\<close> to 647000000, the last entry and the highest frequency.
\<close>

theorem time_based_confirmation_at_time_zero:
  "get_time_inms \<lparr>tv_sec = 0, tv_nsec = 0\<rparr> = 0
   \<and> get_time_inms \<lparr>tv_sec = 0, tv_nsec = 600000000\<rparr> = 0 + 600
   \<and> idle_lasttime initial_state = 0
   \<and> adreno_idler default_params False \<lparr>tv_sec = 0, tv_nsec = 0\<rparr>
        \<lparr>total_time = 10000, busy_time = 1000, current_frequency = 647000000\<rparr>
        \<lparr>freq_table = [647000000, 370000000, 160000000], max_state = 3\<rparr> 647000000
        initial_state
      = Inr (0, 647000000, initial_state)
   \<and> adreno_idler default_params False \<lparr>tv_sec = 0, tv_nsec = 600000000\<rparr>
        \<lparr>total_time = 10000, busy_time = 1000, current_frequency = 647000000\<rparr>
        \<lparr>freq_table = [647000000, 370000000, 160000000], max_state = 3\<rparr> 647000000
        initial_state
      = Inr (0, 647000000, \<lparr>idle_lasttime = 600, idlecount = 0\<rparr>)
   \<and> lowest_freq \<lparr>freq_table = [160000000, 370000000, 647000000], max_state = 3\<rparr>
      = 160000000
   \<and> adreno_idler default_params False \<lparr>tv_sec = 1600000000, tv_nsec = 250000000\<rparr>
        \<lparr>total_time = 10000, busy_time = 1000, current_frequency = 370000000\<rparr>
        \<lparr>freq_table = [160000000, 370000000, 647000000], max_state = 3\<rparr> 370000000
        initial_state
      = Inr (0, 370000000, \<lparr>idle_lasttime = 1600000000250, idlecount = 0\<rparr>)
   \<and> adreno_idler default_params False \<lparr>tv_sec = 1600000000, tv_nsec = 850000000\<rparr>
        \<lparr>total_time = 10000, busy_time = 1000, current_frequency = 370000000\<rparr>
        \<lparr>freq_table = [160000000, 370000000, 647000000], max_state = 3\<rparr> 370000000
        \<lparr>idle_lasttime = 1600000000250, idlecount = 0\<rparr>
      = Inr (1, 647000000, \<lparr>idle_lasttime = 1600000000250, idlecount = 0\<rparr>)"
  by (simp add: adreno_idler_def default_params_def initial_state_def mark_idle_start_def
      freq_table_at_def below_downdifferenctial_def get_time_inms_def MSEC_PER_SEC_def
      NSEC_PER_MSEC_def signed_divide_int_def word_sle_eq lowest_freq_def
      ascending_table_def)

subsection \<open>C2\<close>

text \<open>
  C2 (event-based confirmation). The claim has every idle call add one to \<open>idlecount\<close>,
  so that the 25th idle call in a row returns 1 through the test of line 108. The
  function compares \<open>idlecount\<close> with \<open>idlewait\<close> and sets it to 0 on a busy sample, but
  no statement adds to it. At the default parameters, from the state at module load, an
  idle sample that passes the ratio test leaves \<open>idlecount\<close> at 0; and of 25 such calls
  10 ms apart every one returns 0 with \<^verbatim>\<open>*freq\<close> left alone, the 25th too, and
  \<open>idlecount\<close> is still 0 at the end.
\<close>

theorem idlecount_not_incremented:
  "adreno_idler default_params False \<lparr>tv_sec = 1600000000, tv_nsec = 0\<rparr>
     \<lparr>total_time = 10000, busy_time = 1000, current_frequency = 647000000\<rparr>
     \<lparr>freq_table = [647000000, 370000000, 160000000], max_state = 3\<rparr> 647000000
     initial_state
   = Inr (0, 647000000, \<lparr>idle_lasttime = 1600000000000, idlecount = 0\<rparr>)
   \<and> adreno_idler_calls default_params
       (periodic_calls 25 \<lparr>tv_sec = 1600000000, tv_nsec = 0\<rparr> 10000000 False
          \<lparr>total_time = 10000, busy_time = 1000, current_frequency = 647000000\<rparr>
          \<lparr>freq_table = [647000000, 370000000, 160000000], max_state = 3\<rparr> 647000000)
       initial_state
     = Inr (replicate 25 (0, 647000000), \<lparr>idle_lasttime = 1600000000000, idlecount = 0\<rparr>)"
  by code_simp

subsection \<open>C3\<close>

text \<open>
  C3 (suspend priority), as the code has it. With the switch on, a threshold that is
  not negative, a sample with \<open>busy_time\<close> at or above the threshold and
  \<^verbatim>\<open>state_suspended\<close> set, on an array that runs from the highest frequency down to the
  lowest, the call returns 1 with \<^verbatim>\<open>*freq\<close> set to the lowest frequency of the table,
  whatever \<open>idlecount\<close> and \<open>idle_lasttime\<close> hold (and it leaves them as they are).
\<close>

theorem suspend_priority:
  assumes "adreno_idler_active p \<noteq> 0"
    and "0 \<le> sint (idleworkload p)"
    and "sint (idleworkload p) \<le> uint (busy_time stats)"
    and "wf_profile profile" and "max_state profile \<noteq> 0"
    and "highest_first profile"
  shows "adreno_idler p True cur_time stats profile freq g = Inr (1, lowest_freq profile, g)"
proof -
  have busy: "scast (idleworkload p) \<le> busy_time stats"
    using assms(2,3) by (rule threshold_reached)
  have "last_entry profile = lowest_freq profile"
    using assms(6) wf_profile_nonempty [OF assms(4,5)] by (rule last_entry_lowest)
  with adreno_idler_suspended [OF assms(1) busy assms(4,5)] show ?thesis
    by simp
qed

theorem suspend_priority_witness:
  "adreno_idler default_params True \<lparr>tv_sec = 1600000000, tv_nsec = 250000000\<rparr>
     \<lparr>total_time = 10000, busy_time = 9000, current_frequency = 647000000\<rparr>
     \<lparr>freq_table = [647000000, 370000000, 160000000], max_state = 3\<rparr> 647000000
     \<lparr>idle_lasttime = 1599999999000, idlecount = 4\<rparr>
   = Inr (1, 160000000, \<lparr>idle_lasttime = 1599999999000, idlecount = 4\<rparr>)"
proof -
  let ?profile = "\<lparr>freq_table = [647000000, 370000000, 160000000], max_state = 3\<rparr>"
  have low: "lowest_freq ?profile = 160000000"
    by (simp add: lowest_freq_def ascending_table_def)
  have "adreno_idler default_params True \<lparr>tv_sec = 1600000000, tv_nsec = 250000000\<rparr>
     \<lparr>total_time = 10000, busy_time = 9000, current_frequency = 647000000\<rparr>
     ?profile 647000000 \<lparr>idle_lasttime = 1599999999000, idlecount = 4\<rparr>
   = Inr (1, lowest_freq ?profile, \<lparr>idle_lasttime = 1599999999000, idlecount = 4\<rparr>)"
    by (rule suspend_priority)
      (simp_all add: default_params_def wf_profile_def highest_first_def)
  then show ?thesis
    by (simp only: low)
qed

text \<open>
  C3 as the claim states it fails in two ways. On the ascending table of the
  specification, whose lowest frequency is 160000000, the call sets \<^verbatim>\<open>*freq\<close> to
  647000000, the last entry and the highest frequency. And with the threshold set to
  \<open>-1\<close>, which every \<open>busy_time\<close> reaches, line 99 compares \<open>busy_time\<close> with
  \<open>2 ^ 64 - 1\<close> and takes the sample for idle: the call returns 0 and leaves \<^verbatim>\<open>*freq\<close>
  alone.
\<close>

theorem suspend_priority_ascending_table_negative_threshold:
  "lowest_freq \<lparr>freq_table = [160000000, 370000000, 647000000], max_state = 3\<rparr> = 160000000
   \<and> adreno_idler default_params True \<lparr>tv_sec = 1600000000, tv_nsec = 250000000\<rparr>
       \<lparr>total_time = 10000, busy_time = 9000, current_frequency = 370000000\<rparr>
       \<lparr>freq_table = [160000000, 370000000, 647000000], max_state = 3\<rparr> 370000000
       initial_state
     = Inr (1, 647000000, initial_state)
   \<and> sint (idleworkload (default_params\<lparr>idleworkload := - 1\<rparr>))
       \<le> uint (busy_time \<lparr>total_time = 10000, busy_time = 9000,
                            current_frequency = 647000000\<rparr>)
   \<and> adreno_idler (default_params\<lparr>idleworkload := - 1\<rparr>) True
       \<lparr>tv_sec = 1600000000, tv_nsec = 250000000\<rparr>
       \<lparr>total_time = 10000, busy_time = 9000, current_frequency = 647000000\<rparr>
       \<lparr>freq_table = [647000000, 370000000, 160000000], max_state = 3\<rparr> 647000000
       initial_state
     = Inr (0, 647000000, \<lparr>idle_lasttime = 1600000000250, idlecount = 0\<rparr>)"
  by (simp add: adreno_idler_def default_params_def initial_state_def mark_idle_start_def
      freq_table_at_def below_downdifferenctial_def get_time_inms_def MSEC_PER_SEC_def
      NSEC_PER_MSEC_def signed_divide_int_def word_sle_eq lowest_freq_def
      ascending_table_def)

subsection \<open>C4\<close>

text \<open>
  C4 (non-idle hint and streak reset), as the code has it. With the switch on, a
  threshold that is not negative, a sample with \<open>busy_time\<close> at or above the threshold,
  \<^verbatim>\<open>state_suspended\<close> clear and a table of at least 3 entries, on an array that runs from
  the highest frequency down to the lowest, the call returns 0 with \<^verbatim>\<open>*freq\<close> set to the
  second-lowest frequency of the table, and afterwards \<open>idlecount\<close> is 0 and
  \<open>idle_lasttime\<close> is 0 (unset).
\<close>

theorem non_idle_hint:
  assumes "adreno_idler_active p \<noteq> 0"
    and "0 \<le> sint (idleworkload p)"
    and "sint (idleworkload p) \<le> uint (busy_time stats)"
    and "wf_profile profile" and "3 \<le> max_state profile"
    and "highest_first profile"
  shows "\<exists>g'. adreno_idler p False cur_time stats profile freq g
                 = Inr (0, second_lowest_freq profile, g')
               \<and> idlecount g' = 0 \<and> idle_lasttime g' = 0"
proof -
  have busy: "scast (idleworkload p) \<le> busy_time stats"
    using assms(2,3) by (rule threshold_reached)
  have "(2 :: c_uint) \<le> 3" by simp
  then have two: "2 \<le> max_state profile"
    using assms(5) by (rule order_trans)
  have "entry_before_last profile = second_lowest_freq profile"
    using assms(6) wf_profile_two [OF assms(4) two] by (rule entry_before_last_second_lowest)
  with adreno_idler_busy [OF assms(1) busy assms(4) two]
  have "adreno_idler p False cur_time stats profile freq g
      = Inr (0, second_lowest_freq profile, \<lparr>idle_lasttime = 0, idlecount = 0\<rparr>)"
    by simp
  then show ?thesis by simp
qed

theorem non_idle_hint_witness:
  "\<exists>g'. adreno_idler default_params False \<lparr>tv_sec = 1600000000, tv_nsec = 250000000\<rparr>
     \<lparr>total_time = 10000, busy_time = 9000, current_frequency = 647000000\<rparr>
     \<lparr>freq_table = [647000000, 370000000, 160000000], max_state = 3\<rparr> 647000000
     \<lparr>idle_lasttime = 1599999999000, idlecount = 4\<rparr>
   = Inr (0, 370000000, g') \<and> idlecount g' = 0 \<and> idle_lasttime g' = 0"
proof -
  let ?profile = "\<lparr>freq_table = [647000000, 370000000, 160000000], max_state = 3\<rparr>"
  have second: "second_lowest_freq ?profile = 370000000"
    by (simp add: second_lowest_freq_def ascending_table_def)
  have "\<exists>g'. adreno_idler default_params False
     \<lparr>tv_sec = 1600000000, tv_nsec = 250000000\<rparr>
     \<lparr>total_time = 10000, busy_time = 9000, current_frequency = 647000000\<rparr>
     ?profile 647000000 \<lparr>idle_lasttime = 1599999999000, idlecount = 4\<rparr>
   = Inr (0, second_lowest_freq ?profile, g')
     \<and> idlecount g' = 0 \<and> idle_lasttime g' = 0"
    by (rule non_idle_hint)
      (simp_all add: default_params_def wf_profile_def highest_first_def)
  then show ?thesis
    by (simp only: second)
qed

text \<open>
  C4 as the claim states it fails in two ways. On the ascending table of the
  specification, whose second-lowest frequency is 370000000, the call sets \<^verbatim>\<open>*freq\<close> to
  647000000, the entry before the last. And with the threshold set to \<open>-1\<close>, which every
  \<open>busy_time\<close> reaches, line 99 takes the sample for idle: the call leaves \<^verbatim>\<open>*freq\<close>
  alone and, far from clearing \<open>idle_lasttime\<close>, stores the time in it.
\<close>

theorem non_idle_hint_ascending_table_negative_threshold:
  "second_lowest_freq
     \<lparr>freq_table = [160000000, 370000000, 647000000, 800000000], max_state = 4\<rparr>
     = 370000000
   \<and> adreno_idler default_params False \<lparr>tv_sec = 1600000000, tv_nsec = 250000000\<rparr>
       \<lparr>total_time = 10000, busy_time = 9000, current_frequency = 800000000\<rparr>
       \<lparr>freq_table = [160000000, 370000000, 647000000, 800000000], max_state = 4\<rparr>
       800000000 initial_state
     = Inr (0, 647000000, \<lparr>idle_lasttime = 0, idlecount = 0\<rparr>)
   \<and> sint (idleworkload (default_params\<lparr>idleworkload := - 1\<rparr>))
       \<le> uint (busy_time \<lparr>total_time = 10000, busy_time = 9000,
                            current_frequency = 647000000\<rparr>)
   \<and> adreno_idler (default_params\<lparr>idleworkload := - 1\<rparr>) False
       \<lparr>tv_sec = 1600000000, tv_nsec = 250000000\<rparr>
       \<lparr>total_time = 10000, busy_time = 9000, current_frequency = 647000000\<rparr>
       \<lparr>freq_table = [647000000, 370000000, 160000000], max_state = 3\<rparr> 647000000
       initial_state
     = Inr (0, 647000000, \<lparr>idle_lasttime = 1600000000250, idlecount = 0\<rparr>)"
  by (simp add: adreno_idler_def default_params_def initial_state_def mark_idle_start_def
      freq_table_at_def below_downdifferenctial_def get_time_inms_def MSEC_PER_SEC_def
      NSEC_PER_MSEC_def signed_divide_int_def word_sle_eq second_lowest_freq_def
      ascending_table_def)

subsection \<open>C5\<close>

text \<open>
  C5 (floor idempotence), as the code has it. With the switch on, a sample with
  \<open>busy_time\<close> below the threshold and \<^verbatim>\<open>*freq\<close> equal to the lowest frequency of the
  table on entry, on an array that runs from the highest frequency down to the lowest,
  the call returns 1 and \<^verbatim>\<open>*freq\<close> holds the lowest frequency on return.
\<close>

theorem floor_idempotence:
  assumes "adreno_idler_active p \<noteq> 0"
    and "uint (busy_time stats) < sint (idleworkload p)"
    and "wf_profile profile" and "max_state profile \<noteq> 0"
    and "highest_first profile"
    and "freq = lowest_freq profile"
  shows "adreno_idler p state_suspended cur_time stats profile freq g
           = Inr (1, lowest_freq profile, mark_idle_start cur_time g)"
proof -
  have idle: "busy_time stats < scast (idleworkload p)"
    using assms(2) by (rule below_threshold)
  have "last_entry profile = lowest_freq profile"
    using assms(5) wf_profile_nonempty [OF assms(3,4)] by (rule last_entry_lowest)
  with assms(6) show ?thesis
    by (simp add: adreno_idler_idle [OF assms(1) idle assms(3,4)])
qed

theorem floor_idempotence_witness:
  "adreno_idler default_params False \<lparr>tv_sec = 1600000000, tv_nsec = 250000000\<rparr>
     \<lparr>total_time = 10000, busy_time = 1000, current_frequency = 160000000\<rparr>
     \<lparr>freq_table = [647000000, 370000000, 160000000], max_state = 3\<rparr> 160000000
     initial_state
   = Inr (1, 160000000, \<lparr>idle_lasttime = 1600000000250, idlecount = 0\<rparr>)"
proof -
  let ?profile = "\<lparr>freq_table = [647000000, 370000000, 160000000], max_state = 3\<rparr>"
  have low: "lowest_freq ?profile = 160000000"
    by (simp add: lowest_freq_def ascending_table_def)
  have mark: "mark_idle_start \<lparr>tv_sec = 1600000000, tv_nsec = 250000000\<rparr> initial_state
          = \<lparr>idle_lasttime = 1600000000250, idlecount = 0\<rparr>"
    by (simp add: mark_idle_start_def initial_state_def get_time_inms_def MSEC_PER_SEC_def
        NSEC_PER_MSEC_def signed_divide_int_def)
  have "adreno_idler default_params False \<lparr>tv_sec = 1600000000, tv_nsec = 250000000\<rparr>
     \<lparr>total_time = 10000, busy_time = 1000, current_frequency = 160000000\<rparr>
     ?profile 160000000 initial_state
   = Inr (1, lowest_freq ?profile,
          mark_idle_start \<lparr>tv_sec = 1600000000, tv_nsec = 250000000\<rparr> initial_state)"
    by (rule floor_idempotence)
      (simp_all add: default_params_def wf_profile_def highest_first_def low)
  then show ?thesis
    by (simp only: low mark)
qed

text \<open>
  C5 as the claim states it fails on the ascending table of the specification. With
  \<^verbatim>\<open>*freq\<close> at 160000000, the lowest frequency of the table, the test of line 103
  compares it with the last entry, 647000000, the highest: the call goes on and, with
  neither ramp-down condition met, returns 0.
\<close>

theorem floor_idempotence_ascending_table:
  "lowest_freq \<lparr>freq_table = [160000000, 370000000, 647000000], max_state = 3\<rparr> = 160000000
   \<and> adreno_idler default_params False \<lparr>tv_sec = 1600000000, tv_nsec = 250000000\<rparr>
       \<lparr>total_time = 10000, busy_time = 1000, current_frequency = 160000000\<rparr>
       \<lparr>freq_table = [160000000, 370000000, 647000000], max_state = 3\<rparr> 160000000
       initial_state
     = Inr (0, 160000000, \<lparr>idle_lasttime = 1600000000250, idlecount = 0\<rparr>)"
  by (simp add: adreno_idler_def default_params_def initial_state_def mark_idle_start_def
      freq_table_at_def below_downdifferenctial_def get_time_inms_def MSEC_PER_SEC_def
      NSEC_PER_MSEC_def signed_divide_int_def word_sle_eq lowest_freq_def
      ascending_table_def)

subsection \<open>C6\<close>

text \<open>
  C6 (bypass). For every sample, suspend flag, current frequency, table and starting
  state: when the master switch is off the call returns 0, leaves \<^verbatim>\<open>*freq\<close> as it was
  and leaves both \<open>idle_lasttime\<close> and \<open>idlecount\<close> unchanged.
\<close>

theorem bypass_when_inactive:
  assumes "adreno_idler_active p = 0"
  shows "adreno_idler p state_suspended cur_time stats profile freq g = Inr (0, freq, g)"
  using assms by (simp add: adreno_idler_def)

theorem bypass_when_inactive_witness:
  "adreno_idler (default_params\<lparr>adreno_idler_active := 0\<rparr>) True
     \<lparr>tv_sec = 1600000000, tv_nsec = 250000000\<rparr>
     \<lparr>total_time = 10000, busy_time = 1000, current_frequency = 647000000\<rparr>
     \<lparr>freq_table = [647000000, 370000000, 160000000], max_state = 3\<rparr> 647000000
     \<lparr>idle_lasttime = 1599999999000, idlecount = 4\<rparr>
   = Inr (0, 647000000, \<lparr>idle_lasttime = 1599999999000, idlecount = 4\<rparr>)"
  by (rule bypass_when_inactive) (simp add: default_params_def)

subsection \<open>C7\<close>




subsection \<open>C8\<close>




subsection \<open>C9\<close>




subsection \<open>C10\<close>

text \<open>
  C10 (what is written to \<^verbatim>\<open>*freq\<close>), as the code has it. For every input and state,
  whenever the call returns with \<^verbatim>\<open>*freq\<close> holding another value than on entry, that
  value is the entry read at \<open>max_state - 1\<close>, the last of the table, or the one read at
  \<open>max_state - 2\<close>, the one before it. For a registered table of at least 2 entries on
  an array that runs from the highest frequency down to the lowest, the call always
  returns, and \<^verbatim>\<open>*freq\<close> then holds the caller's value, the lowest frequency of the table
  or the second-lowest.
\<close>

theorem suggested_frequency_from_table:
  "(\<forall>r freq' g'.
      adreno_idler p state_suspended cur_time stats profile freq g = Inr (r, freq', g') \<longrightarrow>
        freq' = freq
        \<or> freq_table_at profile (max_state profile - 1) = Inr freq'
        \<or> freq_table_at profile (max_state profile - 2) = Inr freq')
   \<and> (wf_profile profile \<and> 2 \<le> max_state profile \<and> highest_first profile \<longrightarrow>
        (\<exists>r freq' g'.
           adreno_idler p state_suspended cur_time stats profile freq g = Inr (r, freq', g')
           \<and> (freq' = freq \<or> freq' = lowest_freq profile
                \<or> freq' = second_lowest_freq profile)))"
proof (intro conjI allI impI)
  fix r freq' g'
  assume "adreno_idler p state_suspended cur_time stats profile freq g = Inr (r, freq', g')"
  then show "freq' = freq
        \<or> freq_table_at profile (max_state profile - 1) = Inr freq'
        \<or> freq_table_at profile (max_state profile - 2) = Inr freq'"
    by (auto simp: adreno_idler_def Let_def split: if_splits sum.splits)
next
  assume a: "wf_profile profile \<and> 2 \<le> max_state profile \<and> highest_first profile"
  then have wf: "wf_profile profile" and two: "2 \<le> max_state profile"
    and order: "highest_first profile"
    by simp_all
  from two have nonempty: "max_state profile \<noteq> 0" by auto
  have "last_entry profile = lowest_freq profile"
    using order wf_profile_nonempty [OF wf nonempty] by (rule last_entry_lowest)
  then have low: "freq_table_at profile (max_state profile - 1) = Inr (lowest_freq profile)"
    using freq_table_at_last [OF wf nonempty] by simp
  have "entry_before_last profile = second_lowest_freq profile"
    using order wf_profile_two [OF wf two] by (rule entry_before_last_second_lowest)
  then have second:
    "freq_table_at profile (max_state profile - 2) = Inr (second_lowest_freq profile)"
    using freq_table_at_before_last [OF wf two] by simp
  show "\<exists>r freq' g'.
           adreno_idler p state_suspended cur_time stats profile freq g = Inr (r, freq', g')
           \<and> (freq' = freq \<or> freq' = lowest_freq profile
                \<or> freq' = second_lowest_freq profile)"
    by (simp add: adreno_idler_def Let_def low second)
qed

theorem suggested_frequency_from_table_witness:
  "adreno_idler default_params False \<lparr>tv_sec = 1600000000, tv_nsec = 250000000\<rparr>
     \<lparr>total_time = 10000, busy_time = 9000, current_frequency = 647000000\<rparr>
     \<lparr>freq_table = [647000000, 370000000, 160000000], max_state = 3\<rparr> 647000000
     initial_state
   = Inr (0, 370000000, initial_state)
   \<and> (freq_table_at \<lparr>freq_table = [647000000, 370000000, 160000000], max_state = 3\<rparr>
         (3 - 1) = Inr 370000000
      \<or> freq_table_at \<lparr>freq_table = [647000000, 370000000, 160000000], max_state = 3\<rparr>
         (3 - 2) = Inr 370000000)
   \<and> (\<exists>r freq' g'.
        adreno_idler default_params False \<lparr>tv_sec = 1600000000, tv_nsec = 250000000\<rparr>
          \<lparr>total_time = 10000, busy_time = 9000, current_frequency = 647000000\<rparr>
          \<lparr>freq_table = [647000000, 370000000, 160000000], max_state = 3\<rparr> 647000000
          initial_state
        = Inr (r, freq', g')
        \<and> (freq' = 647000000 \<or> freq' = 160000000 \<or> freq' = 370000000))"
proof -
  let ?profile = "\<lparr>freq_table = [647000000, 370000000, 160000000], max_state = 3\<rparr>"
  let ?t = "\<lparr>tv_sec = 1600000000, tv_nsec = 250000000\<rparr>"
  let ?stats = "\<lparr>total_time = 10000, busy_time = 9000, current_frequency = 647000000\<rparr>"
  note inst = suggested_frequency_from_table [where p = default_params
      and state_suspended = False and cur_time = ?t and stats = ?stats and profile = ?profile
      and freq = 647000000 and g = initial_state]
  have run: "adreno_idler default_params False ?t ?stats ?profile 647000000 initial_state
               = Inr (0, 370000000, initial_state)"
    by code_simp
  have wf: "wf_profile ?profile \<and> 2 \<le> max_state ?profile \<and> highest_first ?profile"
    by (simp add: wf_profile_def highest_first_def)
  have low: "lowest_freq ?profile = 160000000"
    and second: "second_lowest_freq ?profile = 370000000"
    by (simp_all add: lowest_freq_def second_lowest_freq_def ascending_table_def)
  have "370000000 = (647000000 :: ulong)
      \<or> freq_table_at ?profile (max_state ?profile - 1) = Inr 370000000
      \<or> freq_table_at ?profile (max_state ?profile - 2) = Inr 370000000"
    using inst [THEN conjunct1] run by blast
  then have part1: "freq_table_at ?profile (3 - 1) = Inr 370000000
      \<or> freq_table_at ?profile (3 - 2) = Inr 370000000"
    by simp
  have part2: "\<exists>r freq' g'.
        adreno_idler default_params False ?t ?stats ?profile 647000000 initial_state
        = Inr (r, freq', g')
        \<and> (freq' = 647000000 \<or> freq' = 160000000 \<or> freq' = 370000000)"
    using inst [THEN conjunct2, THEN mp, OF wf] by (simp only: low second)
  from run part1 part2 show ?thesis by (intro conjI)
qed

text \<open>
  C10 as the claim states it fails on the ascending table of the specification, whose
  lowest and second-lowest frequencies are 160000000 and 370000000: with a busy sample
  and \<^verbatim>\<open>state_suspended\<close> set the call changes \<^verbatim>\<open>*freq\<close> from 647000000 to 800000000, the
  last entry and the highest frequency of the table.
\<close>

theorem suggested_frequency_ascending_table:
  "lowest_freq
     \<lparr>freq_table = [160000000, 370000000, 647000000, 800000000], max_state = 4\<rparr>
     = 160000000
   \<and> second_lowest_freq
     \<lparr>freq_table = [160000000, 370000000, 647000000, 800000000], max_state = 4\<rparr>
     = 370000000
   \<and> adreno_idler default_params True \<lparr>tv_sec = 1600000000, tv_nsec = 250000000\<rparr>
       \<lparr>total_time = 10000, busy_time = 9000, current_frequency = 647000000\<rparr>
       \<lparr>freq_table = [160000000, 370000000, 647000000, 800000000], max_state = 4\<rparr>
       647000000 initial_state
     = Inr (1, 800000000, initial_state)"
  by (simp add: adreno_idler_def default_params_def initial_state_def freq_table_at_def
      lowest_freq_def second_lowest_freq_def ascending_table_def)

end
